theory Spec2Isabelle
  imports Main "HOL-Library.Multiset"
begin

section \<open>Data model of the record store client (frontend/web/src/App.tsx)\<close>

text \<open>
  The client keeps JSON documents in a generic key/value contract: the index under the key
  \<open>record_keys\<close> (a JSON array of ids) and one object per record under \<open>record_<id>\<close>.
  \<open>JSON.parse\<close> returns \<open>any\<close>; the program looks at a parsed value in two ways only: as the
  index (\<open>keys: string[]\<close>) and as an object of which it reads the properties \<open>data\<close>,
  \<open>timestamp\<close>, \<open>owner\<close>, \<open>category\<close> and \<open>status\<close>. A parsed value is therefore an array
  of strings or an object seen through these five properties, each of which may be absent
  (\<open>undefined\<close> is \<open>None\<close>). A property that is present has the type the interface
  \<open>EncryptedRecord\<close> declares for it; the timestamp is an integer number of seconds.
\<close>

record record_data =
  rd_data :: "string option"
  rd_timestamp :: "int option"
  rd_owner :: "string option"
  rd_category :: "string option"
  rd_status :: "string option"

datatype json = JArray "string list" | JObject record_data

text \<open>
  The \<open>bytes\<close> a \<open>getData\<close> call returns are observed through \<open>.length\<close> and through
  \<open>JSON.parse(ethers.toUtf8String(_))\<close>, and built by
  \<open>ethers.toUtf8Bytes(JSON.stringify(_))\<close>: they are empty, or not empty and rejected by the
  parser, or the encoding \<open>Utf8 j\<close> of a JSON value, which parses back to \<open>j\<close>.
\<close>

datatype bytes = Empty | Malformed | Utf8 json

fun JSON_parse :: "bytes \<Rightarrow> json option" where
  "JSON_parse Empty = None"
| "JSON_parse Malformed = None"
| "JSON_parse (Utf8 j) = Some j"

text \<open>Property reads \<open>recordData.data\<close> etc.; an array has none of the five properties.\<close>

fun field_data :: "json \<Rightarrow> string option" where
  "field_data (JObject d) = rd_data d"
| "field_data (JArray ks) = None"

fun field_timestamp :: "json \<Rightarrow> int option" where
  "field_timestamp (JObject d) = rd_timestamp d"
| "field_timestamp (JArray ks) = None"

fun field_owner :: "json \<Rightarrow> string option" where
  "field_owner (JObject d) = rd_owner d"
| "field_owner (JArray ks) = None"

fun field_category :: "json \<Rightarrow> string option" where
  "field_category (JObject d) = rd_category d"
| "field_category (JArray ks) = None"

fun field_status :: "json \<Rightarrow> string option" where
  "field_status (JObject d) = rd_status d"
| "field_status (JArray ks) = None"

text \<open>\<open>recordData.status || "pending"\<close>: \<open>undefined\<close> and the empty string are falsy.\<close>

definition statusOrPending :: "string option \<Rightarrow> string" where
  "statusOrPending s = (case s of None \<Rightarrow> ''pending'' | Some t \<Rightarrow> if t = [] then ''pending'' else t)"

text \<open>\<open>for (const key of keys)\<close>: an array is iterated, a plain object is not iterable (TypeError).\<close>

fun iterate :: "json \<Rightarrow> string list option" where
  "iterate (JArray ks) = Some ks"
| "iterate (JObject d) = None"

text \<open>\<open>keys.push(recordId)\<close>: a plain object has no \<open>push\<close> method (TypeError).\<close>

fun push :: "json \<Rightarrow> string \<Rightarrow> json option" where
  "push (JArray ks) k = Some (JArray (ks @ [k]))"
| "push (JObject d) k = None"

text \<open>
  \<open>{...recordData, status: s}\<close>: the own properties of the parsed value with \<open>status\<close>
  overridden. Spreading an array gives its index-named properties, none of which the program
  ever reads.
\<close>

fun spreadWithStatus :: "json \<Rightarrow> string \<Rightarrow> record_data" where
  "spreadWithStatus (JObject d) s = d\<lparr>rd_status := Some s\<rparr>"
| "spreadWithStatus (JArray ks) s =
     \<lparr>rd_data = None, rd_timestamp = None, rd_owner = None, rd_category = None, rd_status = Some s\<rparr>"

text \<open>The interface \<open>EncryptedRecord\<close>, as \<open>loadRecords\<close> fills it from a parsed object.\<close>

record EncryptedRecord =
  id' :: string
  encryptedData :: "string option"
  timestamp :: "int option"
  owner :: "string option"
  category :: "string option"
  status :: string

text \<open>
  A value of \<open>categoryStats\<close>: a number, or the string that \<open>+ 1\<close> makes of a value that is
  not a number.
\<close>

datatype statval = Num nat | Str string

record stats =
  totalRecords :: nat
  pending :: nat
  verified :: nat
  rejected :: nat
  categoryStats :: "(string \<times> statval) list"

datatype tx_kind = TxPending | TxSuccess | TxError

record transaction_status =
  visible :: bool
  tx_status :: tx_kind
  message :: string

record new_record_data =
  form_category :: string
  description :: string
  sensitiveInfo :: string

section \<open>The contract and the application state\<close>

datatype call = IsAvailable | GetData string | SetData string bytes

text \<open>
  What the collaborators outside the component do during one invocation: whether
  \<open>getContractReadOnly\<close> and \<open>getContractWithSigner\<close> give a contract, \<open>null\<close> or a rejected
  promise (with the message of its \<open>Error\<close>), what \<open>isAvailable\<close> answers, which \<open>getData\<close> and
  \<open>setData\<close> calls reject, the two readings of \<open>Date.now()\<close>, the seven characters taken from
  \<open>Math.random().toString(36)\<close> and \<open>btoa(JSON.stringify(_))\<close> on the form data (the
  form texts are byte strings, on which \<open>btoa\<close> is defined). A \<open>setData\<close> that does not
  reject has stored its value when the call returns.
\<close>

datatype handle = Contract | NoContract | Rejects string

record env =
  readOnly :: handle
  withSigner :: handle
  available :: "string + bool"
  getFails :: "string \<Rightarrow> string option"
  setFails :: "string \<Rightarrow> string option"
  dateNowId :: nat
  dateNowTimestamp :: nat
  randomPart :: string
  btoaJson :: "new_record_data \<Rightarrow> string"

text \<open>
  The contract storage, the effects that can be observed from outside (contract calls in
  order, \<open>console.error\<close> lines, \<open>alert\<close> boxes) and the React state of \<open>App\<close>. \<open>provider\<close> is
  \<open>True\<close> when the state holds a provider (a wallet is connected). The state is taken when the
  asynchronous function settles; the \<open>setTimeout\<close> callbacks that hide the banner later are
  not part of it.
\<close>

record world =
  chain :: "string \<Rightarrow> bytes"
  calls :: "call list"
  console :: "string list"
  alerts :: "string list"
  account :: string
  provider :: bool
  records :: "EncryptedRecord list"
  stats :: stats
  transactionStatus :: transaction_status
  loading :: bool
  isRefreshing :: bool
  creating :: bool
  showCreateModal :: bool
  newRecordData :: new_record_data

definition initialWorld :: "(string \<Rightarrow> bytes) \<Rightarrow> world" where
  "initialWorld c =
     \<lparr>chain = c, calls = [], console = [], alerts = [], account = [], provider = False,
      records = [],
      stats = \<lparr>totalRecords = 0, pending = 0, verified = 0, rejected = 0, categoryStats = []\<rparr>,
      transactionStatus = \<lparr>visible = False, tx_status = TxPending, message = []\<rparr>,
      loading = True, isRefreshing = False, creating = False, showCreateModal = False,
      newRecordData = \<lparr>form_category = [], description = [], sensitiveInfo = []\<rparr>\<rparr>"

definition logError :: "string \<Rightarrow> world \<Rightarrow> world" where
  "logError m w = w\<lparr>console := console w @ [m]\<rparr>"

definition getData :: "env \<Rightarrow> string \<Rightarrow> world \<Rightarrow> (string + bytes) \<times> world" where
  "getData e key w =
     (let w' = w\<lparr>calls := calls w @ [GetData key]\<rparr>
      in case getFails e key of
           Some m \<Rightarrow> (Inl m, w')
         | None \<Rightarrow> (Inr (chain w key), w'))"

definition setData :: "env \<Rightarrow> string \<Rightarrow> bytes \<Rightarrow> world \<Rightarrow> (string + unit) \<times> world" where
  "setData e key v w =
     (let w' = w\<lparr>calls := calls w @ [SetData key v]\<rparr>
      in case setFails e key of
           Some m \<Rightarrow> (Inl m, w')
         | None \<Rightarrow> (Inr (), w'\<lparr>chain := (chain w)(key := v)\<rparr>))"

text \<open>
  \<open>let keys = []; if (keysBytes.length > 0) { try { keys = JSON.parse(..) } catch { console.error(..) } }\<close>,
  written twice in the source with two log lines.
\<close>

definition parseKeys :: "string \<Rightarrow> bytes \<Rightarrow> world \<Rightarrow> json \<times> world" where
  "parseKeys m keysBytes w =
     (if keysBytes = Empty then (JArray [], w)
      else case JSON_parse keysBytes of
             None \<Rightarrow> (JArray [], logError m w)
           | Some j \<Rightarrow> (j, w))"

section \<open>loadRecords\<close>

text \<open>
  \<open>categoryStats\<close> is the object literal \<open>{}\<close>, so it inherits from \<open>Object.prototype\<close>.
  \<open>categoryStats[k] = (categoryStats[k] || 0) + 1\<close> reads an own property if there is one and
  an inherited one otherwise. The inherited methods are truthy and \<open>+ 1\<close> turns them into a
  string; \<open>__proto__\<close> reads as \<open>Object.prototype\<close>, and its setter ignores the string that
  is assigned, so that no own property appears.
\<close>

definition objectPrototypeMethods :: "string list" where
  "objectPrototypeMethods =
     [''constructor'', ''__defineGetter__'', ''__defineSetter__'', ''hasOwnProperty'',
      ''__lookupGetter__'', ''__lookupSetter__'', ''isPrototypeOf'', ''propertyIsEnumerable'',
      ''toString'', ''valueOf'', ''toLocaleString'']"

definition nativeFunctionText :: "string \<Rightarrow> string" where
  "nativeFunctionText k =
     ''function '' @ (if k = ''constructor'' then ''Object'' else k) @ ''() { [native code] }''"

fun setProperty :: "string \<Rightarrow> statval \<Rightarrow> (string \<times> statval) list \<Rightarrow> (string \<times> statval) list" where
  "setProperty k v [] = [(k, v)]"
| "setProperty k v (p # ps) = (if fst p = k then (k, v) # ps else p # setProperty k v ps)"

definition countCategory :: "string \<Rightarrow> (string \<times> statval) list \<Rightarrow> (string \<times> statval) list" where
  "countCategory k cs =
     (if k = ''__proto__'' then cs
      else case map_of cs k of
             Some (Num n) \<Rightarrow> setProperty k (Num (n + 1)) cs
           | Some (Str s) \<Rightarrow> setProperty k (if s = [] then Num 1 else Str (s @ ''1'')) cs
           | None \<Rightarrow>
               if k \<in> set objectPrototypeMethods
               then setProperty k (Str (nativeFunctionText k @ ''1'')) cs
               else setProperty k (Num 1) cs)"

text \<open>The property key \<open>record.category\<close>: \<open>undefined\<close> becomes the key \<open>"undefined"\<close>.\<close>

definition categoryKey :: "string option \<Rightarrow> string" where
  "categoryKey c = (case c of None \<Rightarrow> ''undefined'' | Some k \<Rightarrow> k)"

text \<open>
  \<open>list.sort((a, b) => b.timestamp - a.timestamp)\<close>. The difference is \<open>NaN\<close> (\<open>None\<close>) when
  a timestamp is \<open>undefined\<close>, and the sort takes \<open>NaN\<close> as \<open>+0\<close>. The sort is stable: an
  element stays before the elements it does not compare greater than. With timestamps
  missing the comparator is not consistent and ECMAScript leaves the order to the engine;
  the order below is then one possible order.
\<close>

definition compareFn :: "EncryptedRecord \<Rightarrow> EncryptedRecord \<Rightarrow> int option" where
  "compareFn a b =
     (case (timestamp b, timestamp a) of
        (Some tb, Some ta) \<Rightarrow> Some (tb - ta)
      | _ \<Rightarrow> None)"

definition notAfter :: "EncryptedRecord \<Rightarrow> EncryptedRecord \<Rightarrow> bool" where
  "notAfter a b = (case compareFn a b of None \<Rightarrow> True | Some v \<Rightarrow> v \<le> 0)"

fun insertRecord :: "EncryptedRecord \<Rightarrow> EncryptedRecord list \<Rightarrow> EncryptedRecord list" where
  "insertRecord a [] = [a]"
| "insertRecord a (b # bs) = (if notAfter a b then a # b # bs else b # insertRecord a bs)"

definition sortRecords :: "EncryptedRecord list \<Rightarrow> EncryptedRecord list" where
  "sortRecords xs = foldr insertRecord xs []"

text \<open>The variables of the loop: \<open>list\<close>, \<open>categoryStats\<close>, \<open>pending\<close>, \<open>verified\<close>, \<open>rejected\<close>.\<close>

record load_vars =
  lv_list :: "EncryptedRecord list"
  lv_categoryStats :: "(string \<times> statval) list"
  lv_pending :: nat
  lv_verified :: nat
  lv_rejected :: nat

definition makeRecord :: "string \<Rightarrow> json \<Rightarrow> EncryptedRecord" where
  "makeRecord key recordData =
     \<lparr>id' = key,
      encryptedData = field_data recordData,
      timestamp = field_timestamp recordData,
      owner = field_owner recordData,
      category = field_category recordData,
      status = statusOrPending (field_status recordData)\<rparr>"

definition countRecord :: "EncryptedRecord \<Rightarrow> load_vars \<Rightarrow> load_vars" where
  "countRecord r v =
     \<lparr>lv_list = lv_list v @ [r],
      lv_categoryStats = countCategory (categoryKey (category r)) (lv_categoryStats v),
      lv_pending = (if status r = ''pending'' then lv_pending v + 1 else lv_pending v),
      lv_verified =
        (if status r \<noteq> ''pending'' \<and> status r = ''verified'' then lv_verified v + 1
         else lv_verified v),
      lv_rejected =
        (if status r \<noteq> ''pending'' \<and> status r \<noteq> ''verified'' \<and> status r = ''rejected''
         then lv_rejected v + 1 else lv_rejected v)\<rparr>"

text \<open>The body of \<open>for (const key of keys)\<close>, with its two nested \<open>try\<close> blocks.\<close>

definition loadRecord :: "env \<Rightarrow> world \<times> load_vars \<Rightarrow> string \<Rightarrow> world \<times> load_vars" where
  "loadRecord e s key =
     (case getData e (''record_'' @ key) (fst s) of
        (Inl m, w) \<Rightarrow> (logError (''Error loading record '' @ key @ '':'') w, snd s)
      | (Inr recordBytes, w) \<Rightarrow>
          if recordBytes = Empty then (w, snd s)
          else (case JSON_parse recordBytes of
                  None \<Rightarrow> (logError (''Error parsing record data for '' @ key @ '':'') w, snd s)
                | Some recordData \<Rightarrow> (w, countRecord (makeRecord key recordData) (snd s))))"

definition emptyVars :: load_vars where
  "emptyVars =
     \<lparr>lv_list = [], lv_categoryStats = [], lv_pending = 0, lv_verified = 0, lv_rejected = 0\<rparr>"

definition publish :: "world \<times> load_vars \<Rightarrow> world" where
  "publish s =
     (let sorted = sortRecords (lv_list (snd s))
      in (fst s)\<lparr>records := sorted,
                 stats := \<lparr>totalRecords = length sorted,
                           pending = lv_pending (snd s),
                           verified = lv_verified (snd s),
                           rejected = lv_rejected (snd s),
                           categoryStats = lv_categoryStats (snd s)\<rparr>\<rparr>)"

definition loadRecords :: "env \<Rightarrow> world \<Rightarrow> world" where
  "loadRecords e w0 =
     (let w1 = w0\<lparr>isRefreshing := True\<rparr>;
          w2 =
            (case readOnly e of
               Rejects m \<Rightarrow> logError ''Error loading records:'' w1
             | NoContract \<Rightarrow> w1
             | Contract \<Rightarrow>
                 (let w3 = w1\<lparr>calls := calls w1 @ [IsAvailable]\<rparr>
                  in (case available e of
                        Inl m \<Rightarrow> logError ''Error loading records:'' w3
                      | Inr False \<Rightarrow> logError ''Contract is not available'' w3
                      | Inr True \<Rightarrow>
                          (case getData e ''record_keys'' w3 of
                             (Inl m, w4) \<Rightarrow> logError ''Error loading records:'' w4
                           | (Inr keysBytes, w4) \<Rightarrow>
                               (case parseKeys ''Error parsing record keys:'' keysBytes w4 of
                                  (keys, w5) \<Rightarrow>
                                    (case iterate keys of
                                       None \<Rightarrow> logError ''Error loading records:'' w5
                                     | Some ks \<Rightarrow>
                                         publish (foldl (loadRecord e) (w5, emptyVars) ks)))))))
      in w2\<lparr>isRefreshing := False, loading := False\<rparr>)"

section \<open>submitRecord\<close>

definition digit :: "nat \<Rightarrow> char" where
  "digit n = ''0123456789'' ! (n mod 10)"

fun string_of_nat :: "nat \<Rightarrow> string" where
  "string_of_nat n = (if n < 10 then [digit n] else string_of_nat (n div 10) @ [digit n])"

declare string_of_nat.simps [simp del]

definition recordId :: "env \<Rightarrow> string" where
  "recordId e = string_of_nat (dateNowId e) @ ''-'' @ randomPart e"

fun includesText :: "string \<Rightarrow> string \<Rightarrow> bool" where
  "includesText [] sub = (sub = [])"
| "includesText (c # cs) sub = (take (length sub) (c # cs) = sub \<or> includesText cs sub)"

definition orUnknown :: "string \<Rightarrow> string" where
  "orUnknown m = (if m = [] then ''Unknown error'' else m)"

definition banner :: "tx_kind \<Rightarrow> string \<Rightarrow> transaction_status" where
  "banner k m = \<lparr>visible = True, tx_status = k, message = m\<rparr>"

definition newRecord :: "env \<Rightarrow> world \<Rightarrow> record_data" where
  "newRecord e w =
     \<lparr>rd_data = Some (''FHE-'' @ btoaJson e (newRecordData w)),
      rd_timestamp = Some (int (dateNowTimestamp e div 1000)),
      rd_owner = Some (account w),
      rd_category = Some (form_category (newRecordData w)),
      rd_status = Some ''pending''\<rparr>"

text \<open>
  The \<open>try\<close> block of \<open>submitRecord\<close>: \<open>Inl m\<close> is a thrown \<open>Error\<close> with message \<open>m\<close>.
  The message of the \<open>TypeError\<close> of \<open>keys.push\<close> is the engine's own; V8's text stands
  for it.
\<close>

definition submitTry :: "env \<Rightarrow> world \<Rightarrow> (string + unit) \<times> world" where
  "submitTry e w =
     (case withSigner e of
        Rejects m \<Rightarrow> (Inl m, w)
      | NoContract \<Rightarrow> (Inl ''Failed to get contract with signer'', w)
      | Contract \<Rightarrow>
          (case setData e (''record_'' @ recordId e) (Utf8 (JObject (newRecord e w))) w of
             (Inl m, w1) \<Rightarrow> (Inl m, w1)
           | (Inr u, w1) \<Rightarrow>
               (case getData e ''record_keys'' w1 of
                  (Inl m, w2) \<Rightarrow> (Inl m, w2)
                | (Inr keysBytes, w2) \<Rightarrow>
                    (case parseKeys ''Error parsing keys:'' keysBytes w2 of
                       (keys, w3) \<Rightarrow>
                         (case push keys (recordId e) of
                            None \<Rightarrow> (Inl ''keys.push is not a function'', w3)
                          | Some keys' \<Rightarrow>
                              (case setData e ''record_keys'' (Utf8 keys') w3 of
                                 (Inl m, w4) \<Rightarrow> (Inl m, w4)
                               | (Inr u', w4) \<Rightarrow>
                                   (Inr (),
                                    loadRecords e
                                      (w4\<lparr>transactionStatus :=
                                            banner TxSuccess ''Encrypted data submitted securely!''\<rparr>))))))))"

definition submitRecord :: "env \<Rightarrow> world \<Rightarrow> world" where
  "submitRecord e w0 =
     (if \<not> provider w0 then w0\<lparr>alerts := alerts w0 @ [''Please connect wallet first'']\<rparr>
      else
        let w1 = w0\<lparr>creating := True,
                    transactionStatus :=
                      banner TxPending ''Encrypting sensitive data with Zama FHE...''\<rparr>;
            w2 = (case submitTry e w1 of
                    (Inr u, w) \<Rightarrow> w
                  | (Inl m, w) \<Rightarrow>
                      w\<lparr>transactionStatus :=
                          banner TxError
                            (if includesText m ''user rejected transaction''
                             then ''Transaction rejected by user''
                             else ''Submission failed: '' @ orUnknown m)\<rparr>)
        in w2\<lparr>creating := False\<rparr>)"

section \<open>verifyRecord and rejectRecord\<close>

text \<open>
  The two functions are the same text up to the status written and two messages; the common
  text is \<open>changeTry\<close> and \<open>changeStatus\<close>. A parse error of \<open>JSON.parse\<close> is a
  \<open>SyntaxError\<close>, whose message is the engine's own; a fixed text stands for it.
\<close>

definition changeTry :: "string \<Rightarrow> string \<Rightarrow> env \<Rightarrow> string \<Rightarrow> world \<Rightarrow> (string + unit) \<times> world" where
  "changeTry newStatus success e recordId' w =
     (case withSigner e of
        Rejects m \<Rightarrow> (Inl m, w)
      | NoContract \<Rightarrow> (Inl ''Failed to get contract with signer'', w)
      | Contract \<Rightarrow>
          (case getData e (''record_'' @ recordId') w of
             (Inl m, w1) \<Rightarrow> (Inl m, w1)
           | (Inr recordBytes, w1) \<Rightarrow>
               if recordBytes = Empty then (Inl ''Record not found'', w1)
               else (case JSON_parse recordBytes of
                       None \<Rightarrow> (Inl ''Unexpected token in JSON'', w1)
                     | Some recordData \<Rightarrow>
                         (case setData e (''record_'' @ recordId')
                                 (Utf8 (JObject (spreadWithStatus recordData newStatus))) w1 of
                            (Inl m, w2) \<Rightarrow> (Inl m, w2)
                          | (Inr u, w2) \<Rightarrow>
                              (Inr (),
                               loadRecords e
                                 (w2\<lparr>transactionStatus := banner TxSuccess success\<rparr>))))))"

definition changeStatus :: "string \<Rightarrow> string \<Rightarrow> string \<Rightarrow> env \<Rightarrow> string \<Rightarrow> world \<Rightarrow> world" where
  "changeStatus newStatus success failed e recordId' w0 =
     (if \<not> provider w0 then w0\<lparr>alerts := alerts w0 @ [''Please connect wallet first'']\<rparr>
      else
        let w1 = w0\<lparr>transactionStatus :=
                      banner TxPending ''Processing encrypted data with FHE...''\<rparr>
        in (case changeTry newStatus success e recordId' w1 of
              (Inr u, w) \<Rightarrow> w
            | (Inl m, w) \<Rightarrow> w\<lparr>transactionStatus := banner TxError (failed @ orUnknown m)\<rparr>))"

definition verifyRecord :: "env \<Rightarrow> string \<Rightarrow> world \<Rightarrow> world" where
  "verifyRecord =
     changeStatus ''verified'' ''FHE verification completed successfully!'' ''Verification failed: ''"

definition rejectRecord :: "env \<Rightarrow> string \<Rightarrow> world \<Rightarrow> world" where
  "rejectRecord =
     changeStatus ''rejected'' ''Record rejected successfully!'' ''Rejection failed: ''"

section \<open>Vocabulary of the properties\<close>

text \<open>
  The keys the loops run over: the parsed index, and no key at all when the index bytes are
  empty or do not parse. \<open>None\<close> is the index that is not an array.
\<close>

definition indexKeys :: "bytes \<Rightarrow> string list option" where
  "indexKeys b = (case b of Empty \<Rightarrow> Some [] | Malformed \<Rightarrow> Some [] | Utf8 j \<Rightarrow> iterate j)"

definition indexLog :: "string \<Rightarrow> bytes \<Rightarrow> string list" where
  "indexLog m b = (if b = Malformed then [m] else [])"

text \<open>What one index entry contributes: a record, if its fetch and its parse succeed.\<close>

definition fetched :: "env \<Rightarrow> (string \<Rightarrow> bytes) \<Rightarrow> string \<Rightarrow> EncryptedRecord option" where
  "fetched e c key =
     (case getFails e (''record_'' @ key) of
        Some m \<Rightarrow> None
      | None \<Rightarrow> map_option (makeRecord key) (JSON_parse (c (''record_'' @ key))))"

definition loopLog :: "env \<Rightarrow> (string \<Rightarrow> bytes) \<Rightarrow> string \<Rightarrow> string list" where
  "loopLog e c key =
     (case getFails e (''record_'' @ key) of
        Some m \<Rightarrow> [''Error loading record '' @ key @ '':'']
      | None \<Rightarrow>
          if c (''record_'' @ key) = Malformed
          then [''Error parsing record data for '' @ key @ '':''] else [])"





definition zeroStats :: stats where
  "zeroStats = \<lparr>totalRecords = 0, pending = 0, verified = 0, rejected = 0, categoryStats = []\<rparr>"

text \<open>The sum of the per-category counts, when every one of them is a number.\<close>

fun categoryTotal :: "(string \<times> statval) list \<Rightarrow> nat option" where
  "categoryTotal [] = Some 0"
| "categoryTotal ((k, Num n) # cs) = map_option (\<lambda>t. n + t) (categoryTotal cs)"
| "categoryTotal ((k, Str s) # cs) = None"

text \<open>The status that \<open>loadRecords\<close> shows for the record stored under an id.\<close>

definition storedStatus :: "(string \<Rightarrow> bytes) \<Rightarrow> string \<Rightarrow> string option" where
  "storedStatus c i =
     map_option (\<lambda>j. statusOrPending (field_status j)) (JSON_parse (c (''record_'' @ i)))"

text \<open>A sequence of \<open>verifyRecord\<close> and \<open>rejectRecord\<close> calls, each in its own environment.\<close>

datatype action = Verify string | Reject string

fun perform :: "env \<Rightarrow> action \<Rightarrow> world \<Rightarrow> world" where
  "perform e (Verify i) w = verifyRecord e i w"
| "perform e (Reject i) w = rejectRecord e i w"

fun run :: "(env \<times> action) list \<Rightarrow> world \<Rightarrow> world" where
  "run [] w = w"
| "run (ea # rest) w = run rest (perform (fst ea) (snd ea) w)"

subsection \<open>Sample data\<close>

definition recordA :: record_data where
  "recordA =
     \<lparr>rd_data = Some ''FHE-eyJhIjoxfQ=='', rd_timestamp = Some 1700000010,
      rd_owner = Some ''0xA11ce'', rd_category = Some ''KYC'', rd_status = Some ''pending''\<rparr>"

definition recordC :: record_data where
  "recordC =
     \<lparr>rd_data = Some ''FHE-eyJjIjozfQ=='', rd_timestamp = Some 1700000030,
      rd_owner = Some ''0xB0b'', rd_category = Some ''Credit'', rd_status = Some ''verified''\<rparr>"

definition recordD :: record_data where
  "recordD =
     \<lparr>rd_data = Some ''FHE-eyJkIjo0fQ=='', rd_timestamp = Some 1700000020,
      rd_owner = Some ''0xA11ce'', rd_category = Some ''KYC'', rd_status = Some ''rejected''\<rparr>"

definition recordP :: record_data where
  "recordP =
     \<lparr>rd_data = Some ''FHE-eyJwIjo1fQ=='', rd_timestamp = Some 1700000040,
      rd_owner = Some ''0xB0b'', rd_category = Some ''__proto__'', rd_status = Some ''pending''\<rparr>"

definition recordQ :: record_data where
  "recordQ =
     \<lparr>rd_data = Some ''FHE-eyJxIjo2fQ=='', rd_timestamp = Some 1700000045,
      rd_owner = Some ''0xB0b'', rd_category = Some ''constructor'', rd_status = Some ''pending''\<rparr>"

definition emptyChain :: "string \<Rightarrow> bytes" where
  "emptyChain = (\<lambda>k. Empty)"

definition demoChain :: "string \<Rightarrow> bytes" where
  "demoChain =
     (\<lambda>k. Empty)
       (''record_keys'' := Utf8 (JArray [''a'', ''b'', ''c'', ''d'']),
        ''record_a'' := Utf8 (JObject recordA),
        ''record_b'' := Malformed,
        ''record_c'' := Utf8 (JObject recordC),
        ''record_d'' := Utf8 (JObject recordD))"

definition protoChain :: "string \<Rightarrow> bytes" where
  "protoChain =
     (\<lambda>k. Empty)
       (''record_keys'' := Utf8 (JArray [''p'']),
        ''record_p'' := Utf8 (JObject recordP))"

definition constructorChain :: "string \<Rightarrow> bytes" where
  "constructorChain =
     (\<lambda>k. Empty)
       (''record_keys'' := Utf8 (JArray [''q'']),
        ''record_q'' := Utf8 (JObject recordQ))"

definition brokenIndexChain :: "string \<Rightarrow> bytes" where
  "brokenIndexChain =
     (\<lambda>k. Empty)(''record_keys'' := Malformed, ''record_a'' := Utf8 (JObject recordA))"

definition demoEnv :: env where
  "demoEnv =
     \<lparr>readOnly = Contract, withSigner = Contract, available = Inr True,
      getFails = (\<lambda>k. None), setFails = (\<lambda>k. None),
      dateNowId = 1700000050123, dateNowTimestamp = 1700000050124,
      randomPart = ''k3x9q0z'', btoaJson = (\<lambda>d. ''eyJ4IjoxfQ=='')\<rparr>"


definition offlineEnv :: env where
  "offlineEnv =
     demoEnv\<lparr>getFails := (\<lambda>k. if k = ''record_keys'' then Some ''network error'' else None)\<rparr>"


definition connected :: "world \<Rightarrow> world" where
  "connected w =
     w\<lparr>account := ''0xA11ce'', provider := True,
       newRecordData :=
         \<lparr>form_category = ''Medical'', description = ''scan'', sensitiveInfo = ''x''\<rparr>\<rparr>"

section \<open>Facts about the model\<close>

lemma loadRecord_vars:
  "snd (loadRecord e s key) =
     (case fetched e (chain (fst s)) key of None \<Rightarrow> snd s | Some r \<Rightarrow> countRecord r (snd s))"
  by (cases "chain (fst s) (''record_'' @ key)")
     (auto simp: loadRecord_def getData_def fetched_def logError_def split: option.splits)

lemma loadRecord_world:
  "fst (loadRecord e s key) =
     (fst s)\<lparr>calls := calls (fst s) @ [GetData (''record_'' @ key)],
             console := console (fst s) @ loopLog e (chain (fst s)) key\<rparr>"
  by (cases "chain (fst s) (''record_'' @ key)")
     (auto simp: loadRecord_def getData_def loopLog_def logError_def split: option.splits)

lemma loop_world:
  "fst (foldl (loadRecord e) s ks) =
     (fst s)\<lparr>calls := calls (fst s) @ map (\<lambda>k. GetData (''record_'' @ k)) ks,
             console := console (fst s) @ concat (map (loopLog e (chain (fst s))) ks)\<rparr>"
proof (induction ks arbitrary: s)
  case Nil
  show ?case by simp
next
  case (Cons k ks)
  show ?case by (simp add: Cons.IH loadRecord_world)
qed

lemma loop_vars:
  "snd (foldl (loadRecord e) s ks) =
     foldl (\<lambda>v r. countRecord r v) (snd s) (List.map_filter (fetched e (chain (fst s))) ks)"
proof (induction ks arbitrary: s)
  case Nil
  show ?case by (simp add: List.map_filter_simps)
next
  case (Cons k ks)
  show ?case
    by (simp add: Cons.IH loadRecord_vars loadRecord_world List.map_filter_simps split: option.splits)
qed

lemma count_list:
  "lv_list (foldl (\<lambda>v r. countRecord r v) v rs) = lv_list v @ rs"
  by (induction rs arbitrary: v) (simp_all add: countRecord_def)




lemma mset_insertRecord: "mset (insertRecord a bs) = add_mset a (mset bs)"
  by (induction bs) simp_all

lemma mset_sortRecords: "mset (sortRecords xs) = mset xs"
  by (induction xs) (simp_all add: sortRecords_def mset_insertRecord)

lemma length_sortRecords: "length (sortRecords xs) = length xs"
  using mset_sortRecords [of xs] by (metis size_mset)


lemma parseKeys_iterate:
  "indexKeys b = Some ks \<Longrightarrow>
   parseKeys m b w = (JArray ks, w\<lparr>console := console w @ indexLog m b\<rparr>)"
  by (cases b) (auto simp: indexKeys_def parseKeys_def indexLog_def logError_def elim: iterate.elims)

lemma loadRecords_nominal:
  assumes "readOnly e = Contract" and "available e = Inr True"
    and "getFails e ''record_keys'' = None"
    and "indexKeys (chain w ''record_keys'') = Some ks"
  shows "loadRecords e w =
     (publish (foldl (loadRecord e)
        (w\<lparr>isRefreshing := True,
           calls := calls w @ [IsAvailable, GetData ''record_keys''],
           console := console w @ indexLog ''Error parsing record keys:'' (chain w ''record_keys'')\<rparr>,
         emptyVars) ks))\<lparr>isRefreshing := False, loading := False\<rparr>"
  using assms
  by (simp add: loadRecords_def getData_def parseKeys_iterate [where ks = ks])

lemma loadRecords_records:
  assumes "readOnly e = Contract" and "available e = Inr True"
    and "getFails e ''record_keys'' = None"
    and "indexKeys (chain w ''record_keys'') = Some ks"
  shows "records (loadRecords e w) = sortRecords (List.map_filter (fetched e (chain w)) ks)"
  by (simp add: loadRecords_nominal [OF assms] publish_def Let_def loop_vars count_list emptyVars_def)

lemma loadRecords_stats:
  assumes "readOnly e = Contract" and "available e = Inr True"
    and "getFails e ''record_keys'' = None"
    and "indexKeys (chain w ''record_keys'') = Some ks"
  shows "stats (loadRecords e w) =
     (let v = foldl (\<lambda>v r. countRecord r v) emptyVars (List.map_filter (fetched e (chain w)) ks)
      in \<lparr>totalRecords = length (List.map_filter (fetched e (chain w)) ks),
          pending = lv_pending v, verified = lv_verified v, rejected = lv_rejected v,
          categoryStats = lv_categoryStats v\<rparr>)"
  by (simp add: loadRecords_nominal [OF assms] publish_def Let_def loop_vars count_list
      length_sortRecords emptyVars_def)



text \<open>loadRecords never writes to the contract and never touches the banner or the alerts.\<close>

lemma loadRecords_frame:
  "chain (loadRecords e w) = chain w \<and> transactionStatus (loadRecords e w) = transactionStatus w
   \<and> alerts (loadRecords e w) = alerts w \<and> account (loadRecords e w) = account w
   \<and> provider (loadRecords e w) = provider w"
  by (auto simp: loadRecords_def getData_def parseKeys_def logError_def publish_def Let_def
      loop_world split: handle.splits sum.splits bool.splits option.splits prod.splits)










lemma loadRecords_index_fetch_fails:
  assumes "readOnly e = Contract" and "available e = Inr True"
    and "getFails e ''record_keys'' = Some m"
  shows "loadRecords e w =
     w\<lparr>calls := calls w @ [IsAvailable, GetData ''record_keys''],
       console := console w @ [''Error loading records:''],
       isRefreshing := False, loading := False\<rparr>"
  using assms by (simp add: loadRecords_def getData_def logError_def)

lemma status_spread [simp]: "rd_status (spreadWithStatus j s) = Some s"
  by (cases j) simp_all

lemma fields_spread [simp]:
  "rd_data (spreadWithStatus j s) = field_data j"
  "rd_timestamp (spreadWithStatus j s) = field_timestamp j"
  "rd_owner (spreadWithStatus j s) = field_owner j"
  "rd_category (spreadWithStatus j s) = field_category j"
  by (cases j; simp)+

lemma changeStatus_chain:
  "chain (changeStatus ns ok failed e i w) = chain w
   \<or> (\<exists>j. chain w (''record_'' @ i) = Utf8 j
        \<and> chain (changeStatus ns ok failed e i w)
            = (chain w)(''record_'' @ i := Utf8 (JObject (spreadWithStatus j ns))))"
  by (cases "chain w (''record_'' @ i)")
     (auto simp: changeStatus_def changeTry_def getData_def setData_def loadRecords_frame Let_def
       split: handle.splits option.splits)

lemma changeStatus_nominal:
  assumes "provider w" and "withSigner e = Contract"
    and "getFails e (''record_'' @ i) = None" and "setFails e (''record_'' @ i) = None"
    and "chain w (''record_'' @ i) = Utf8 j"
  shows "chain (changeStatus ns ok failed e i w)
           = (chain w)(''record_'' @ i := Utf8 (JObject (spreadWithStatus j ns)))"
  using assms
  by (simp add: changeStatus_def changeTry_def getData_def setData_def loadRecords_frame Let_def)

lemma changeStatus_session:
  "provider (changeStatus ns ok failed e i w) = provider w
   \<and> account (changeStatus ns ok failed e i w) = account w"
  by (cases "chain w (''record_'' @ i)")
     (auto simp: changeStatus_def changeTry_def getData_def setData_def loadRecords_frame Let_def
       split: handle.splits option.splits)

lemma changeStatus_not_found:
  assumes "chain w (''record_'' @ i) = Empty"
  shows "changeStatus ns ok failed e i w =
     (if \<not> provider w then w\<lparr>alerts := alerts w @ [''Please connect wallet first'']\<rparr>
      else case withSigner e of
             Rejects m \<Rightarrow> w\<lparr>transactionStatus := banner TxError (failed @ orUnknown m)\<rparr>
           | NoContract \<Rightarrow>
               w\<lparr>transactionStatus :=
                   banner TxError (failed @ ''Failed to get contract with signer'')\<rparr>
           | Contract \<Rightarrow>
               w\<lparr>calls := calls w @ [GetData (''record_'' @ i)],
                 transactionStatus :=
                   banner TxError
                     (failed @ (case getFails e (''record_'' @ i) of
                                  Some m \<Rightarrow> orUnknown m
                                | None \<Rightarrow> ''Record not found''))\<rparr>)"
  using assms
  by (auto simp: changeStatus_def changeTry_def getData_def orUnknown_def Let_def
      split: handle.splits option.splits)

lemma storedStatus_changeStatus:
  "storedStatus (chain (changeStatus ns ok failed e i w)) k = storedStatus (chain w) k
   \<or> k = i \<and> storedStatus (chain (changeStatus ns ok failed e i w)) k
               = Some (statusOrPending (Some ns))"
proof -
  let ?w = "changeStatus ns ok failed e i w"
  from changeStatus_chain [of ns ok failed e i w]
  consider "chain ?w = chain w"
    | j where "chain ?w = (chain w)(''record_'' @ i := Utf8 (JObject (spreadWithStatus j ns)))"
    by blast
  then show ?thesis
  proof cases
    case 1
    then show ?thesis by simp
  next
    case (2 j)
    show ?thesis
    proof (cases "k = i")
      case True
      with 2 show ?thesis by (simp add: storedStatus_def)
    next
      case False
      with 2 show ?thesis by (simp add: storedStatus_def)
    qed
  qed
qed

lemma storedStatus_perform:
  "storedStatus (chain (perform e a w)) k = storedStatus (chain w) k
   \<or> storedStatus (chain (perform e a w)) k = Some ''verified''
   \<or> storedStatus (chain (perform e a w)) k = Some ''rejected''"
proof (cases a)
  case (Verify i)
  then show ?thesis
    using storedStatus_changeStatus
      [of "''verified''" "''FHE verification completed successfully!''"
          "''Verification failed: ''" e i w k]
    by (auto simp: verifyRecord_def statusOrPending_def)
next
  case (Reject i)
  then show ?thesis
    using storedStatus_changeStatus
      [of "''rejected''" "''Record rejected successfully!''" "''Rejection failed: ''" e i w k]
    by (auto simp: rejectRecord_def statusOrPending_def)
qed

lemma run_keeps_non_pending:
  "storedStatus (chain w) k \<noteq> Some ''pending''
   \<Longrightarrow> storedStatus (chain (run acts w)) k \<noteq> Some ''pending''"
proof (induction acts arbitrary: w)
  case Nil
  then show ?case by simp
next
  case (Cons ea acts)
  have "storedStatus (chain (perform (fst ea) (snd ea) w)) k \<noteq> Some ''pending''"
    using storedStatus_perform [of "fst ea" "snd ea" w k] Cons.prems by auto
  then show ?case using Cons.IH by simp
qed

lemma recordId_dash: "CHR ''-'' \<in> set (recordId e)"
  by (simp add: recordId_def)

lemma record_key_not_index: "''record_'' @ recordId e \<noteq> ''record_keys''"
proof
  assume "''record_'' @ recordId e = ''record_keys''"
  then have "recordId e = ''keys''" by simp
  with recordId_dash [of e] show False by simp
qed

lemma recordId_not_keys: "recordId e \<noteq> ''keys''"
  using recordId_dash [of e] by auto

lemma submitTry_nominal:
  assumes "withSigner e = Contract"
    and "setFails e (''record_'' @ recordId e) = None"
    and "getFails e ''record_keys'' = None"
    and "setFails e ''record_keys'' = None"
    and "indexKeys (chain w ''record_keys'') = Some ks"
  shows "submitTry e w =
     (Inr (),
      loadRecords e
        (w\<lparr>console := console w @ indexLog ''Error parsing keys:'' (chain w ''record_keys''),
           calls := calls w @
               [SetData (''record_'' @ recordId e) (Utf8 (JObject (newRecord e w))),
                GetData ''record_keys'',
                SetData ''record_keys'' (Utf8 (JArray (ks @ [recordId e])))],
           chain := (chain w)
               (''record_'' @ recordId e := Utf8 (JObject (newRecord e w)),
                ''record_keys'' := Utf8 (JArray (ks @ [recordId e]))),
           transactionStatus := banner TxSuccess ''Encrypted data submitted securely!''\<rparr>))"
  using assms record_key_not_index [of e]
  by (simp add: submitTry_def setData_def getData_def parseKeys_iterate [where ks = ks])

lemma submitRecord_nominal:
  assumes "provider w" and "withSigner e = Contract"
    and "setFails e (''record_'' @ recordId e) = None"
    and "getFails e ''record_keys'' = None"
    and "setFails e ''record_keys'' = None"
    and "indexKeys (chain w ''record_keys'') = Some ks"
  shows "submitRecord e w =
     (loadRecords e
        (w\<lparr>creating := True,
           console := console w @ indexLog ''Error parsing keys:'' (chain w ''record_keys''),
           calls := calls w @
               [SetData (''record_'' @ recordId e) (Utf8 (JObject (newRecord e w))),
                GetData ''record_keys'',
                SetData ''record_keys'' (Utf8 (JArray (ks @ [recordId e])))],
           chain := (chain w)
               (''record_'' @ recordId e := Utf8 (JObject (newRecord e w)),
                ''record_keys'' := Utf8 (JArray (ks @ [recordId e]))),
           transactionStatus := banner TxSuccess ''Encrypted data submitted securely!''\<rparr>))
       \<lparr>creating := False\<rparr>"
proof -
  let ?w1 = "w\<lparr>creating := True,
                transactionStatus :=
                  banner TxPending ''Encrypting sensitive data with Zama FHE...''\<rparr>"
  have k: "indexKeys (chain ?w1 ''record_keys'') = Some ks" using assms(6) by simp
  have n: "newRecord e ?w1 = newRecord e w" by (simp add: newRecord_def)
  show ?thesis
    using assms(1)
    by (simp add: submitRecord_def Let_def submitTry_nominal [OF assms(2-5) k] n)
qed

lemma total_fresh:
  "categoryTotal cs = Some n \<Longrightarrow> map_of cs k = None
   \<Longrightarrow> categoryTotal (setProperty k (Num 1) cs) = Some (n + 1)"
proof (induction cs arbitrary: n rule: categoryTotal.induct)
  case 1
  then show ?case by simp
next
  case (2 k' m cs)
  then show ?case by (auto split: if_splits)
next
  case (3 k' s cs)
  then show ?case by simp
qed

lemma total_bump:
  "categoryTotal cs = Some n \<Longrightarrow> map_of cs k = Some (Num m)
   \<Longrightarrow> categoryTotal (setProperty k (Num (m + 1)) cs) = Some (n + 1)"
proof (induction cs arbitrary: n rule: categoryTotal.induct)
  case 1
  then show ?case by simp
next
  case (2 k' m' cs)
  then show ?case by (auto split: if_splits)
next
  case (3 k' s cs)
  then show ?case by simp
qed

lemma total_no_text:
  "categoryTotal cs = Some n \<Longrightarrow> map_of cs k \<noteq> Some (Str s)"
proof (induction cs arbitrary: n rule: categoryTotal.induct)
  case 1
  then show ?case by simp
next
  case (2 k' m' cs)
  then show ?case by (auto split: if_splits)
next
  case (3 k' s' cs)
  then show ?case by simp
qed

lemma total_countCategory:
  assumes "k \<noteq> ''__proto__''" and "k \<notin> set objectPrototypeMethods"
    and "categoryTotal cs = Some n"
  shows "categoryTotal (countCategory k cs) = Some (n + 1)"
proof (cases "map_of cs k")
  case None
  with assms total_fresh [of cs n k] show ?thesis by (simp add: countCategory_def)
next
  case (Some v)
  show ?thesis
  proof (cases v)
    case (Num m)
    with Some assms total_bump [of cs n k m] show ?thesis by (simp add: countCategory_def)
  next
    case (Str s)
    with Some total_no_text [OF assms(3), of k s] show ?thesis by simp
  qed
qed

lemma count_categories:
  assumes "\<forall>r\<in>set rs. categoryKey (category r) \<noteq> ''__proto__''
             \<and> categoryKey (category r) \<notin> set objectPrototypeMethods"
    and "categoryTotal (lv_categoryStats v) = Some n"
  shows "categoryTotal (lv_categoryStats (foldl (\<lambda>v r. countRecord r v) v rs))
           = Some (n + length rs)"
  using assms
proof (induction rs arbitrary: v n)
  case Nil
  then show ?case by simp
next
  case (Cons r rs)
  have "categoryTotal (lv_categoryStats (countRecord r v)) = Some (n + 1)"
    using Cons.prems by (simp add: countRecord_def total_countCategory)
  with Cons.IH [of "countRecord r v" "n + 1"] Cons.prems(1) show ?case by simp
qed

lemma category_counts_sum_for_ordinary_names:
  assumes "readOnly e = Contract" and "available e = Inr True"
    and "getFails e ''record_keys'' = None"
    and "indexKeys (chain w ''record_keys'') = Some ks"
    and "\<forall>r\<in>set (List.map_filter (fetched e (chain w)) ks).
           categoryKey (category r) \<noteq> ''__proto__''
           \<and> categoryKey (category r) \<notin> set objectPrototypeMethods"
  shows "categoryTotal (categoryStats (stats (loadRecords e w)))
           = Some (totalRecords (stats (loadRecords e w)))"
  using count_categories [OF assms(5), of emptyVars 0]
  by (simp add: loadRecords_stats [OF assms(1-4)] Let_def emptyVars_def)

lemma loadRecords_keeps_log:
  "set (console w) \<subseteq> set (console (loadRecords e w))
   \<and> set (calls w) \<subseteq> set (calls (loadRecords e w))"
  by (auto simp: loadRecords_def getData_def parseKeys_def logError_def publish_def Let_def
      loop_world split: handle.splits sum.splits bool.splits option.splits prod.splits)


lemma submitRecord_index_write_rejected:
  assumes "provider w" and "withSigner e = Contract"
    and "setFails e (''record_'' @ recordId e) = None"
    and "getFails e ''record_keys'' = None"
    and "setFails e ''record_keys'' = Some m"
    and "indexKeys (chain w ''record_keys'') = Some ks"
  shows "console (submitRecord e w)
        = console w @ indexLog ''Error parsing keys:'' (chain w ''record_keys'')
    \<and> calls (submitRecord e w)
        = calls w @
          [SetData (''record_'' @ recordId e) (Utf8 (JObject (newRecord e w))),
           GetData ''record_keys'',
           SetData ''record_keys'' (Utf8 (JArray (ks @ [recordId e])))]"
proof -
  let ?w1 = "w\<lparr>creating := True,
                transactionStatus :=
                  banner TxPending ''Encrypting sensitive data with Zama FHE...''\<rparr>"
  have k: "indexKeys (chain ?w1 ''record_keys'') = Some ks" using assms(6) by simp
  show ?thesis
    using assms(1-5) k recordId_not_keys [of e]
    by (simp add: submitRecord_def submitTry_def setData_def getData_def Let_def newRecord_def
        parseKeys_iterate [where ks = ks])
qed

lemma loadRecords_gives_up_or_publishes:
  "(records (loadRecords e w) = records w \<and> stats (loadRecords e w) = stats w)
   \<or> (\<exists>ks. indexKeys (chain w ''record_keys'') = Some ks
         \<and> readOnly e = Contract \<and> available e = Inr True
         \<and> getFails e ''record_keys'' = None)"
  by (auto simp: loadRecords_def getData_def parseKeys_def logError_def indexKeys_def Let_def
      split: handle.splits sum.splits bool.splits option.splits prod.splits bytes.splits
             json.splits)

subsection \<open>Facts about the sample data\<close>



lemma demo_facts:
  "readOnly demoEnv = Contract" "available demoEnv = Inr True"
  "getFails demoEnv ''record_keys'' = None"
  "indexKeys (chain (initialWorld demoChain) ''record_keys'') = Some [''a'', ''b'', ''c'', ''d'']"
  by (simp_all add: demoEnv_def initialWorld_def demoChain_def indexKeys_def)

lemma demo_fetched:
  "fetched demoEnv (chain (initialWorld demoChain)) ''a'' = Some (makeRecord ''a'' (JObject recordA))"
  "fetched demoEnv (chain (initialWorld demoChain)) ''b'' = None"
  "fetched demoEnv (chain (initialWorld demoChain)) ''c'' = Some (makeRecord ''c'' (JObject recordC))"
  "fetched demoEnv (chain (initialWorld demoChain)) ''d'' = Some (makeRecord ''d'' (JObject recordD))"
  by (simp_all add: fetched_def demoEnv_def initialWorld_def demoChain_def)

lemma offline_facts:
  "readOnly offlineEnv = Contract" "available offlineEnv = Inr True"
  "getFails offlineEnv ''record_keys'' = Some ''network error''"
  by (simp_all add: offlineEnv_def demoEnv_def)

lemma demo_records:
  "records (loadRecords demoEnv (initialWorld demoChain)) =
     [makeRecord ''c'' (JObject recordC), makeRecord ''d'' (JObject recordD),
      makeRecord ''a'' (JObject recordA)]"
  by (simp add: loadRecords_records [OF demo_facts] demo_fetched List.map_filter_simps
      sortRecords_def notAfter_def compareFn_def makeRecord_def recordA_def recordC_def
      recordD_def)

lemma session_facts:
  "provider (connected (initialWorld demoChain))"
  "withSigner demoEnv = Contract"
  "getFails demoEnv k = None"
  "setFails demoEnv k = None"
  "chain (connected (initialWorld demoChain)) ''record_a'' = Utf8 (JObject recordA)"
  "chain (connected (initialWorld demoChain)) ''record_c'' = Utf8 (JObject recordC)"
  by (simp_all add: connected_def initialWorld_def demoChain_def demoEnv_def)

lemma create_facts:
  "provider (connected (initialWorld demoChain))"
  "withSigner demoEnv = Contract"
  "setFails demoEnv (''record_'' @ recordId demoEnv) = None"
  "getFails demoEnv ''record_keys'' = None"
  "setFails demoEnv ''record_keys'' = None"
  "indexKeys (chain (connected (initialWorld demoChain)) ''record_keys'')
     = Some [''a'', ''b'', ''c'', ''d'']"
  "readOnly demoEnv = Contract" "available demoEnv = Inr True"
  "getFails demoEnv (''record_'' @ recordId demoEnv) = None"
  by (simp_all add: connected_def initialWorld_def demoChain_def demoEnv_def indexKeys_def)

lemma demo_recordId: "recordId demoEnv = ''1700000050123-k3x9q0z''"
  by (simp add: recordId_def demoEnv_def string_of_nat.simps digit_def)


lemma broken_facts:
  "provider (connected (initialWorld brokenIndexChain))"
  "withSigner demoEnv = Contract"
  "setFails demoEnv (''record_'' @ recordId demoEnv) = None"
  "getFails demoEnv ''record_keys'' = None"
  "chain (connected (initialWorld brokenIndexChain)) ''record_keys'' = Malformed"
  by (simp_all add: connected_def initialWorld_def brokenIndexChain_def demoEnv_def)



section \<open>The claims\<close>

subsection \<open>Loading\<close>

text \<open>
  Claim C7. Loading an index that is the empty byte string or the empty array gives no
  record and all-zero stats (\<open>totalRecords\<close>, \<open>pending\<close>, \<open>verified\<close> and \<open>rejected\<close>
  are 0 and there is no per-category count) whenever the load reads the index: the
  read-only contract is there and available and the fetch succeeds. A load that does not
  get that far leaves the records and the stats as they were, so that with an empty index
  the outcome is always either the empty list with zero stats or the state before.
\<close>

theorem empty_index_loads_nothing:
  assumes "chain w ''record_keys'' = Empty \<or> chain w ''record_keys'' = Utf8 (JArray [])"
  shows "(readOnly e = Contract \<and> available e = Inr True \<and> getFails e ''record_keys'' = None
          \<longrightarrow> records (loadRecords e w) = [] \<and> stats (loadRecords e w) = zeroStats)
    \<and> ((records (loadRecords e w) = [] \<and> stats (loadRecords e w) = zeroStats)
        \<or> (records (loadRecords e w) = records w \<and> stats (loadRecords e w) = stats w))"
proof -
  from assms have k: "indexKeys (chain w ''record_keys'') = Some []"
    by (auto simp: indexKeys_def)
  have nominal: "readOnly e = Contract \<and> available e = Inr True
      \<and> getFails e ''record_keys'' = None
      \<Longrightarrow> records (loadRecords e w) = [] \<and> stats (loadRecords e w) = zeroStats"
    using k
    by (simp add: loadRecords_records [where ks = "[]"] loadRecords_stats [where ks = "[]"]
        List.map_filter_simps sortRecords_def zeroStats_def emptyVars_def)
  with loadRecords_gives_up_or_publishes [of e w] show ?thesis by blast
qed

theorem empty_index_loads_nothing_witness:
  "records (loadRecords demoEnv (initialWorld emptyChain)) = []
   \<and> stats (loadRecords demoEnv (initialWorld emptyChain)) = zeroStats"
  using empty_index_loads_nothing [of "initialWorld emptyChain" demoEnv]
  by (simp add: demoEnv_def emptyChain_def initialWorld_def)





text \<open>
  Claim C2, as the code has it. When the fetch of the index key rejects during a load, the
  load gives up without a retry (the index is fetched once), writes one line to the console
  and shows nothing to the user: the banner and the alerts are untouched. The records and
  the stats are not reset: they stay what they were before the call, which is the empty
  list when nothing was loaded before, as on the first load.
\<close>

theorem failed_index_fetch_keeps_state:
  assumes "readOnly e = Contract" and "available e = Inr True"
    and "getFails e ''record_keys'' = Some m"
  shows "records (loadRecords e w) = records w
    \<and> stats (loadRecords e w) = stats w
    \<and> transactionStatus (loadRecords e w) = transactionStatus w
    \<and> alerts (loadRecords e w) = alerts w
    \<and> chain (loadRecords e w) = chain w
    \<and> calls (loadRecords e w) = calls w @ [IsAvailable, GetData ''record_keys'']
    \<and> console (loadRecords e w) = console w @ [''Error loading records:'']
    \<and> records (loadRecords e (initialWorld c)) = []"
  by (simp add: loadRecords_index_fetch_fails [OF assms] initialWorld_def)

theorem failed_index_fetch_keeps_state_witness:
  "records (loadRecords offlineEnv (initialWorld demoChain)) = []
   \<and> calls (loadRecords offlineEnv (initialWorld demoChain)) = [IsAvailable, GetData ''record_keys'']
   \<and> console (loadRecords offlineEnv (initialWorld demoChain)) = [''Error loading records:'']
   \<and> alerts (loadRecords offlineEnv (initialWorld demoChain)) = []"
  using failed_index_fetch_keeps_state [OF offline_facts, of "initialWorld demoChain" demoChain]
  by (simp add: initialWorld_def)

text \<open>
  Claim C2 as it was stated, with the list empty after every failed index fetch, fails
  for a refresh that follows a successful load: the three records loaded before are still
  there.
\<close>

theorem failed_index_fetch_keeps_stale_list:
  "getFails offlineEnv ''record_keys'' = Some ''network error''
   \<and> records (loadRecords offlineEnv (loadRecords demoEnv (initialWorld demoChain)))
       = [makeRecord ''c'' (JObject recordC), makeRecord ''d'' (JObject recordD),
          makeRecord ''a'' (JObject recordA)]
   \<and> records (loadRecords offlineEnv (loadRecords demoEnv (initialWorld demoChain))) \<noteq> []"
  by (simp add: loadRecords_index_fetch_fails [OF offline_facts] demo_records offline_facts)

subsection \<open>Status updates\<close>

text \<open>
  Claim C4. A status update (\<open>verifyRecord\<close> or \<open>rejectRecord\<close>) on an id whose stored
  bytes are empty writes nothing: the storage is unchanged and the only contract call, if
  any, is the read of the record. The failure is shown to the user, as the alert when no
  wallet is connected and as the error banner otherwise, and it is the failure of this
  action alone: the records and the stats stay as they were. When the signer contract is
  there and the read succeeds the banner says that the record was not found.
\<close>

theorem missing_record_update_fails:
  assumes "chain w (''record_'' @ i) = Empty"
  shows "chain (verifyRecord e i w) = chain w \<and> chain (rejectRecord e i w) = chain w
    \<and> (calls (verifyRecord e i w) = calls w
         \<or> calls (verifyRecord e i w) = calls w @ [GetData (''record_'' @ i)])
    \<and> (calls (rejectRecord e i w) = calls w
         \<or> calls (rejectRecord e i w) = calls w @ [GetData (''record_'' @ i)])
    \<and> records (verifyRecord e i w) = records w \<and> records (rejectRecord e i w) = records w
    \<and> stats (verifyRecord e i w) = stats w \<and> stats (rejectRecord e i w) = stats w
    \<and> (provider w \<longrightarrow>
          visible (transactionStatus (verifyRecord e i w))
          \<and> tx_status (transactionStatus (verifyRecord e i w)) = TxError
          \<and> visible (transactionStatus (rejectRecord e i w))
          \<and> tx_status (transactionStatus (rejectRecord e i w)) = TxError)
    \<and> (\<not> provider w \<longrightarrow>
          alerts (verifyRecord e i w) = alerts w @ [''Please connect wallet first'']
          \<and> alerts (rejectRecord e i w) = alerts w @ [''Please connect wallet first''])
    \<and> (provider w \<and> withSigner e = Contract \<and> getFails e (''record_'' @ i) = None \<longrightarrow>
          transactionStatus (verifyRecord e i w)
            = banner TxError ''Verification failed: Record not found''
          \<and> transactionStatus (rejectRecord e i w)
            = banner TxError ''Rejection failed: Record not found'')"
  by (auto simp: verifyRecord_def rejectRecord_def changeStatus_not_found [OF assms] banner_def
      split: handle.splits)

theorem missing_record_update_fails_witness:
  "chain (verifyRecord demoEnv ''zz'' (connected (initialWorld demoChain)))
     = chain (connected (initialWorld demoChain))
   \<and> transactionStatus (verifyRecord demoEnv ''zz'' (connected (initialWorld demoChain)))
       = banner TxError ''Verification failed: Record not found''
   \<and> transactionStatus (rejectRecord demoEnv ''zz'' (connected (initialWorld demoChain)))
       = banner TxError ''Rejection failed: Record not found''
   \<and> alerts (verifyRecord demoEnv ''zz'' (initialWorld demoChain))
       = [''Please connect wallet first'']"
  using missing_record_update_fails [of "connected (initialWorld demoChain)" "''zz''" demoEnv]
    missing_record_update_fails [of "initialWorld demoChain" "''zz''" demoEnv]
  by (simp add: connected_def initialWorld_def demoChain_def demoEnv_def)



text \<open>
  Claim C1, as the code has it. \<open>verifyRecord\<close> and \<open>rejectRecord\<close> do not look at the
  status a record has: a call either leaves the status of every record as it was or sets
  the status of its own record to \<open>verified\<close> (\<open>verifyRecord\<close>) or \<open>rejected\<close>
  (\<open>rejectRecord\<close>), and a call that goes through sets it whatever it was before. No
  call writes \<open>pending\<close>: after any sequence of calls, a record whose status was not
  \<open>pending\<close> is still not \<open>pending\<close>.
\<close>

theorem status_updates_never_restore_pending:
  "(storedStatus (chain w) k \<noteq> Some ''pending''
      \<longrightarrow> storedStatus (chain (run acts w)) k \<noteq> Some ''pending'')
   \<and> (storedStatus (chain (verifyRecord e i w)) k = storedStatus (chain w) k
        \<or> k = i \<and> storedStatus (chain (verifyRecord e i w)) k = Some ''verified'')
   \<and> (storedStatus (chain (rejectRecord e i w)) k = storedStatus (chain w) k
        \<or> k = i \<and> storedStatus (chain (rejectRecord e i w)) k = Some ''rejected'')
   \<and> (provider w \<and> withSigner e = Contract \<and> getFails e (''record_'' @ i) = None
        \<and> setFails e (''record_'' @ i) = None \<and> storedStatus (chain w) i \<noteq> None
      \<longrightarrow> storedStatus (chain (verifyRecord e i w)) i = Some ''verified''
          \<and> storedStatus (chain (rejectRecord e i w)) i = Some ''rejected'')"
proof -
  have v: "storedStatus (chain (verifyRecord e i w)) k = storedStatus (chain w) k
        \<or> k = i \<and> storedStatus (chain (verifyRecord e i w)) k = Some ''verified''"
    using storedStatus_changeStatus
      [of "''verified''" "''FHE verification completed successfully!''"
          "''Verification failed: ''" e i w k]
    by (simp add: verifyRecord_def statusOrPending_def)
  have r: "storedStatus (chain (rejectRecord e i w)) k = storedStatus (chain w) k
        \<or> k = i \<and> storedStatus (chain (rejectRecord e i w)) k = Some ''rejected''"
    using storedStatus_changeStatus
      [of "''rejected''" "''Record rejected successfully!''" "''Rejection failed: ''" e i w k]
    by (simp add: rejectRecord_def statusOrPending_def)
  have n: "provider w \<and> withSigner e = Contract \<and> getFails e (''record_'' @ i) = None
        \<and> setFails e (''record_'' @ i) = None \<and> storedStatus (chain w) i \<noteq> None
      \<longrightarrow> storedStatus (chain (verifyRecord e i w)) i = Some ''verified''
          \<and> storedStatus (chain (rejectRecord e i w)) i = Some ''rejected''"
  proof (cases "chain w (''record_'' @ i)")
    case (Utf8 j)
    then show ?thesis
      by (auto simp: verifyRecord_def rejectRecord_def changeStatus_nominal [where j = j]
          storedStatus_def statusOrPending_def)
  qed (simp_all add: storedStatus_def)
  show ?thesis using run_keeps_non_pending [of w k acts] v r n by blast
qed

theorem status_updates_never_restore_pending_witness:
  "storedStatus (chain (connected (initialWorld demoChain))) ''c'' = Some ''verified''
   \<and> storedStatus
       (chain (run [(demoEnv, Reject ''c''), (demoEnv, Verify ''a'')]
                (connected (initialWorld demoChain)))) ''c'' \<noteq> Some ''pending''
   \<and> storedStatus (chain (verifyRecord demoEnv ''c'' (connected (initialWorld demoChain)))) ''c''
       = Some ''verified''
   \<and> storedStatus (chain (rejectRecord demoEnv ''c'' (connected (initialWorld demoChain)))) ''c''
       = Some ''rejected''"
  using status_updates_never_restore_pending
    [of "connected (initialWorld demoChain)" "''c''"
        "[(demoEnv, Reject ''c''), (demoEnv, Verify ''a'')]" demoEnv "''c''"]
    session_facts
  by (simp add: storedStatus_def recordC_def statusOrPending_def)

text \<open>
  Claim C1 as it was stated, with \<open>verified\<close> and \<open>rejected\<close> terminal, fails: a
  pending record that was verified is rejected by the next call.
\<close>

theorem verified_record_can_be_rejected:
  "storedStatus (chain (connected (initialWorld demoChain))) ''a'' = Some ''pending''
   \<and> storedStatus (chain (verifyRecord demoEnv ''a'' (connected (initialWorld demoChain)))) ''a''
       = Some ''verified''
   \<and> storedStatus
       (chain (rejectRecord demoEnv ''a''
                 (verifyRecord demoEnv ''a'' (connected (initialWorld demoChain))))) ''a''
       = Some ''rejected''"
proof -
  let ?w0 = "connected (initialWorld demoChain)"
  let ?w1 = "verifyRecord demoEnv ''a'' ?w0"
  have c1: "chain ?w1 = (chain ?w0)(''record_a'' := Utf8 (JObject (spreadWithStatus (JObject recordA) ''verified'')))"
    using changeStatus_nominal [of ?w0 demoEnv "''a''" "JObject recordA"] session_facts
    by (simp add: verifyRecord_def)
  have p1: "provider ?w1"
    using session_facts(1) by (simp add: verifyRecord_def changeStatus_session)
  have c2: "chain (rejectRecord demoEnv ''a'' ?w1) ''record_a''
      = Utf8 (JObject (spreadWithStatus (JObject (spreadWithStatus (JObject recordA) ''verified'')) ''rejected''))"
    using changeStatus_nominal [of ?w1 demoEnv "''a''"
        "JObject (spreadWithStatus (JObject recordA) ''verified'')"] session_facts p1 c1
    by (simp add: rejectRecord_def)
  show ?thesis
    using c1 c2 session_facts(5)
    by (simp add: storedStatus_def statusOrPending_def recordA_def)
qed

subsection \<open>Creating a record\<close>




text \<open>
  Claim C10. When a create reads an index that is not empty and does not parse, it logs the
  parse error, goes on with the empty key list and rewrites the index with the new record
  id as its only element: that is the \<open>setData\<close> call it makes, and what the index holds
  when the call succeeds. The ids stored before are not in it.
\<close>

theorem unparsable_index_is_replaced:
  assumes "provider w" and "withSigner e = Contract"
    and "setFails e (''record_'' @ recordId e) = None"
    and "getFails e ''record_keys'' = None"
    and "chain w ''record_keys'' = Malformed"
  shows "chain w ''record_keys'' \<noteq> Empty \<and> JSON_parse (chain w ''record_keys'') = None
    \<and> ''Error parsing keys:'' \<in> set (console (submitRecord e w))
    \<and> SetData ''record_keys'' (Utf8 (JArray [recordId e])) \<in> set (calls (submitRecord e w))
    \<and> (setFails e ''record_keys'' = None
         \<longrightarrow> chain (submitRecord e w) ''record_keys'' = Utf8 (JArray [recordId e]))"
proof -
  have k: "indexKeys (chain w ''record_keys'') = Some []"
    using assms(5) by (simp add: indexKeys_def)
  show ?thesis
  proof (cases "setFails e ''record_keys''")
    case None
    let ?w4 = "w\<lparr>creating := True,
        console := console w @ indexLog ''Error parsing keys:'' (chain w ''record_keys''),
        calls := calls w @
               [SetData (''record_'' @ recordId e) (Utf8 (JObject (newRecord e w))),
                GetData ''record_keys'',
                SetData ''record_keys'' (Utf8 (JArray ([] @ [recordId e])))],
        chain := (chain w)
               (''record_'' @ recordId e := Utf8 (JObject (newRecord e w)),
                ''record_keys'' := Utf8 (JArray ([] @ [recordId e]))),
        transactionStatus := banner TxSuccess ''Encrypted data submitted securely!''\<rparr>"
    have eq: "submitRecord e w = (loadRecords e ?w4)\<lparr>creating := False\<rparr>"
      by (rule submitRecord_nominal [OF assms(1-4) None k])
    have "''Error parsing keys:'' \<in> set (console ?w4)"
      using assms(5) by (simp add: indexLog_def)
    then have l: "''Error parsing keys:'' \<in> set (console (loadRecords e ?w4))"
      using loadRecords_keeps_log [of ?w4 e] by blast
    have "SetData ''record_keys'' (Utf8 (JArray [recordId e])) \<in> set (calls ?w4)"
      by simp
    then have c: "SetData ''record_keys'' (Utf8 (JArray [recordId e]))
        \<in> set (calls (loadRecords e ?w4))"
      using loadRecords_keeps_log [of ?w4 e] by blast
    have ch: "chain (submitRecord e w) = chain ?w4"
      by (simp add: eq loadRecords_frame)
    have l': "''Error parsing keys:'' \<in> set (console (submitRecord e w))"
      unfolding eq using l by simp
    have c': "SetData ''record_keys'' (Utf8 (JArray [recordId e]))
        \<in> set (calls (submitRecord e w))"
      unfolding eq using c by simp
    show ?thesis using assms(5) l' c' by (simp add: ch)
  next
    case (Some m)
    show ?thesis
      using assms(5) Some
      by (simp add: submitRecord_index_write_rejected [OF assms(1-4) Some k] indexLog_def)
  qed
qed

theorem unparsable_index_is_replaced_witness:
  "chain (submitRecord demoEnv (connected (initialWorld brokenIndexChain))) ''record_keys''
     = Utf8 (JArray [''1700000050123-k3x9q0z''])
   \<and> ''Error parsing keys:''
        \<in> set (console (submitRecord demoEnv (connected (initialWorld brokenIndexChain))))
   \<and> SetData ''record_keys'' (Utf8 (JArray [''1700000050123-k3x9q0z'']))
        \<in> set (calls (submitRecord demoEnv (connected (initialWorld brokenIndexChain))))"
  using unparsable_index_is_replaced [OF broken_facts] create_facts(5)
  by (simp add: demo_recordId)

subsection \<open>Category counts\<close>

text \<open>
  Claim C8 says that the per-category counts add up to \<open>totalRecords\<close>. The code counts in
  the object literal \<open>{}\<close>, and a category named like a property of \<open>Object.prototype\<close>
  is not counted: for the one record of category \<open>__proto__\<close> no count is stored at all,
  and for the one record of category \<open>constructor\<close> the count is a string, not the number
  1. In both cases \<open>totalRecords\<close> is 1. For every other category name the counts do add up
  (lemma \<open>category_counts_sum_for_ordinary_names\<close>).
\<close>

theorem inherited_category_names_break_the_counts:
  "totalRecords (stats (loadRecords demoEnv (initialWorld protoChain))) = 1
   \<and> categoryStats (stats (loadRecords demoEnv (initialWorld protoChain))) = []
   \<and> categoryTotal (categoryStats (stats (loadRecords demoEnv (initialWorld protoChain)))) = Some 0
   \<and> totalRecords (stats (loadRecords demoEnv (initialWorld constructorChain))) = 1
   \<and> categoryStats (stats (loadRecords demoEnv (initialWorld constructorChain)))
       = [(''constructor'', Str ''function Object() { [native code] }1'')]
   \<and> categoryTotal (categoryStats (stats (loadRecords demoEnv (initialWorld constructorChain))))
       = None"
  by (simp add: loadRecords_def demoEnv_def initialWorld_def protoChain_def constructorChain_def
      getData_def parseKeys_def publish_def loadRecord_def emptyVars_def countRecord_def
      countCategory_def categoryKey_def makeRecord_def recordP_def recordQ_def
      statusOrPending_def sortRecords_def objectPrototypeMethods_def nativeFunctionText_def
      Let_def)

end
